theory Spec2Isabelle
  imports Complex_Main "HOL-Library.Multiset"
begin

section \<open>JavaScript values and numbers\<close>

text \<open>
  The discount calculator (class \<open>DiscountCalculator\<close>) works on JavaScript numbers.
  A number is modelled as an exact rational: rounding error of the binary floating-point
  representation, \<open>NaN\<close> and the infinities are outside the model. The values that reach
  \<open>_roundPrice\<close> are modelled by their JavaScript type, since the helper tests
  \<open>typeof price\<close>; \<open>JSObject\<close> stands for any object, array or function.
\<close>

datatype js_value =
    JSUndefined
  | JSNull
  | JSBoolean bool
  | JSNumber rat
  | JSString string
  | JSObject


text \<open>
  \<open>Math.round(x)\<close>: the integer closest to \<open>x\<close>, a tie going to the one closer to
  plus infinity. \<open>Math.floor(x)\<close>: the greatest integer not above \<open>x\<close>.
\<close>

definition Math_round :: "rat \<Rightarrow> rat" where
  "Math_round x = of_int (round x)"

definition Math_floor :: "rat \<Rightarrow> rat" where
  "Math_floor x = of_int \<lfloor>x\<rfloor>"

text \<open>
  \<^verbatim>\<open>
  static _roundPrice(price) {
    if (typeof price !== 'number') { return 0; }
    return Math.round(price * 100) / 100;
  }
  \<close>
\<close>

fun roundPrice :: "js_value \<Rightarrow> rat" where
  "roundPrice (JSNumber price) = Math_round (price * 100) / 100"
| "roundPrice v = 0"

text \<open>
  The operator \<open>||\<close> on a number: the left operand unless it is falsy (zero),
  and on a field that may be absent (\<open>undefined\<close> is falsy too).
\<close>

definition or_else :: "rat \<Rightarrow> rat \<Rightarrow> rat" where
  "or_else x d = (if x = 0 then d else x)"

fun or_else_opt :: "rat option \<Rightarrow> rat \<Rightarrow> rat" where
  "or_else_opt None d = d"
| "or_else_opt (Some x) d = or_else x d"

text \<open>
  An argument that should be an array: a falsy value (\<open>null\<close>, \<open>undefined\<close>), a truthy
  value that is not an array, or an array. The guard of every entry point is
  \<open>!xs || !Array.isArray(xs) || xs.length === 0\<close>.
\<close>

datatype 'a js_array = Falsy | NotArray | Array "'a list"

fun missing_or_empty :: "'a js_array \<Rightarrow> bool" where
  "missing_or_empty Falsy = True"
| "missing_or_empty NotArray = True"
| "missing_or_empty (Array xs) = (length xs = 0)"

fun elements :: "'a js_array \<Rightarrow> 'a list" where
  "elements (Array xs) = xs"
| "elements v = []"

text \<open>A thrown \<open>new Error(message)\<close>.\<close>

datatype js_error = Error string

fun message :: "js_error \<Rightarrow> string" where
  "message (Error m) = m"

section \<open>Data model\<close>

record cart_item =
  product_id :: string
  price :: rat
  quantity :: rat

record coupon_conditions =
  minimum_cart_value :: "rat option"
  maximum_discount :: "rat option"

text \<open>\<open>discountConfig\<close>: the fields \<open>type\<close> and \<open>value\<close>.\<close>

record discount_config =
  discount_type :: string
  discount_value :: rat

text \<open>
  The \<open>reason\<close> of a result. Each constructor stands for one message of the source;
  \<open>reason_text\<close> below renders it, given the conversion of a number to a string
  that a template literal performs.
\<close>

datatype reason =
    CartIsEmpty
  | BelowMinimum rat rat
  | DiscountCapped rat
  | NoApplicableProductsDefined
  | NoApplicableProductsFound
  | NoBuyArray
  | NoGetArray
  | NeedAtLeast rat rat
  | NoEligibleGetItems
  | CalculationError string


text \<open>The entries of the per-line lists of a breakdown.\<close>

record discounted_item =
  di_product_id :: string
  di_quantity :: rat
  di_price :: rat
  di_itemTotal :: rat
  di_discount :: rat

record buy_item =
  bi_product_id :: string
  bi_quantity :: rat
  bi_price :: rat

record free_item =
  fi_product_id :: string
  fi_quantity :: rat
  fi_price :: rat
  fi_discount :: rat

text \<open>
  \<open>breakdownInfo\<close>: one constructor for each object literal of the source, its fields under
  their names in the source. Where a local variable or a parameter of the source has the
  name of such a field, the functions below call it otherwise: \<open>cartSum\<close> for the local
  \<open>cartTotal\<close>, \<open>products\<close> for \<open>applicableProducts\<close>, \<open>buyIds\<close> and \<open>getIds\<close> for
  \<open>buyArray\<close> and \<open>getArray\<close>, \<open>limit\<close> for \<open>repetitionLimit\<close>, \<open>applicableTimes\<close> for
  \<open>timesApplicable\<close>.
\<close>

datatype breakdown =
    BelowMinimumInfo (cartTotal: rat) (minimumRequired: rat) (shortfall: rat)
  | CappedInfo (cartTotal: rat) (discountType: string) (discountValue: rat)
      (calculatedDiscount: rat) (maximumCap: rat) (finalDiscount: rat)
  | CartWiseInfo (cartTotal: rat) (discountType: string) (discountValue: rat)
      (finalDiscount: rat) (finalAmount: rat)
  | NoProductInfo (applicableProducts: "string list") (cartProducts: "string list")
      (info_message: string)
  | ProductWiseInfo (discountType: string) (discountValue: rat)
      (discountedItems: "discounted_item list") (totalDiscount: rat)
  | BuyShortfallInfo (buyArray: "string list") (buyQuantityRequired: rat)
      (buyQuantityFound: rat) (shortfall: rat) (buyItemsInCart: "buy_item list")
  | NoGetInfo (getArray: "string list") (cartProducts: "string list")
  | BxGyInfo (buyQuantityRequired: rat) (buyQuantityFound: rat)
      (getQuantityPerApplication: rat) (timesApplicable: rat)
      (repetitionLimit: "rat option") (timesApplied: rat) (totalFreeItemsGiven: rat)
      (freeItemsGivenDetails: "free_item list") (totalDiscount: rat)

record evaluation_result =
  applicable :: bool
  reason :: "reason option"
  discountAmount :: rat
  breakdownInfo :: "breakdown option"

text \<open>The handler of every entry point: \<open>catch (error) { return {...} }\<close>.\<close>

definition caught :: "js_error \<Rightarrow> evaluation_result" where
  "caught e =
     \<lparr>applicable = False, reason = Some (CalculationError (message e)),
      discountAmount = 0, breakdownInfo = None\<rparr>"

text \<open>
  An entry point returns to its caller either a thrown error (\<open>Inl\<close>) or a result
  object (\<open>Inr\<close>). The body of each entry point is one \<open>try\<close> block.
\<close>

definition try_catch :: "js_error + evaluation_result \<Rightarrow> js_error + evaluation_result" where
  "try_catch body = (case body of Inl e \<Rightarrow> Inr (caught e) | Inr r \<Rightarrow> Inr r)"

section \<open>Cart-wise discount\<close>

text \<open>
  \<open>cartItems.reduce((sum, item) => sum + (item.price || 0) * (item.quantity || 0), 0)\<close>
\<close>

definition sumCart :: "cart_item list \<Rightarrow> rat" where
  "sumCart cartItems =
     foldl (\<lambda>sum item. sum + or_else (price item) 0 * or_else (quantity item) 0) 0 cartItems"

text \<open>
  Step 4 of \<open>calculateCartWiseDiscount\<close>: the raw discount, or the error thrown for
  an unknown discount type.
\<close>

definition rawCartDiscount :: "rat \<Rightarrow> discount_config \<Rightarrow> js_error + rat" where
  "rawCartDiscount cartSum config =
     (if discount_type config = ''PERCENTAGE'' then
        Inr ((cartSum * discount_value config) / 100)
      else if discount_type config = ''FIXED_AMOUNT'' then
        Inr (discount_value config)
      else Inl (Error (''Unknown discount type: '' @ discount_type config)))"

text \<open>
  Steps 5 to 7: the cap (\<open>maximumDiscount && discountAmount > maximumDiscount\<close>), the
  rounding and the result.
\<close>

definition uncappedResult :: "rat \<Rightarrow> discount_config \<Rightarrow> rat \<Rightarrow> evaluation_result" where
  "uncappedResult cartSum config amount =
     (let rounded = roundPrice (JSNumber amount) in
      \<lparr>applicable = True,
       reason = None,
       discountAmount = rounded,
       breakdownInfo = Some (CartWiseInfo
         (roundPrice (JSNumber cartSum)) (discount_type config) (discount_value config)
         rounded (roundPrice (JSNumber (cartSum - rounded))))\<rparr>)"

definition cappedResult ::
  "rat \<Rightarrow> discount_config \<Rightarrow> rat \<Rightarrow> rat \<Rightarrow> evaluation_result" where
  "cappedResult cartSum config originalDiscount maximumDiscount =
     \<lparr>applicable = True,
      reason = Some (DiscountCapped maximumDiscount),
      discountAmount = roundPrice (JSNumber maximumDiscount),
      breakdownInfo = Some (CappedInfo
        (roundPrice (JSNumber cartSum)) (discount_type config) (discount_value config)
        (roundPrice (JSNumber originalDiscount)) maximumDiscount
        (roundPrice (JSNumber maximumDiscount)))\<rparr>"

definition cartWiseResult ::
  "rat \<Rightarrow> coupon_conditions \<Rightarrow> discount_config \<Rightarrow> rat \<Rightarrow> evaluation_result" where
  "cartWiseResult cartSum conds config amount =
     (case maximum_discount conds of
        None \<Rightarrow> uncappedResult cartSum config amount
      | Some maximumDiscount \<Rightarrow>
          if maximumDiscount \<noteq> 0 \<and> amount > maximumDiscount
          then cappedResult cartSum config amount maximumDiscount
          else uncappedResult cartSum config amount)"

text \<open>The \<open>try\<close> block of \<open>calculateCartWiseDiscount\<close>.\<close>

definition calculateCartWiseDiscount_body ::
  "cart_item js_array \<Rightarrow> coupon_conditions option \<Rightarrow> discount_config option
     \<Rightarrow> js_error + evaluation_result" where
  "calculateCartWiseDiscount_body cartItems couponConditions discountConfig =
     (if missing_or_empty cartItems then
        Inr \<lparr>applicable = False, reason = Some CartIsEmpty,
             discountAmount = 0, breakdownInfo = None\<rparr>
      else
        (case (couponConditions, discountConfig) of
           (Some conds, Some config) \<Rightarrow>
             (let cartSum = sumCart (elements cartItems);
                  minimumValue = or_else_opt (minimum_cart_value conds) 0 in
              if cartSum < minimumValue then
                Inr \<lparr>applicable = False,
                     reason = Some (BelowMinimum (roundPrice (JSNumber cartSum)) minimumValue),
                     discountAmount = 0,
                     breakdownInfo = Some (BelowMinimumInfo
                       (roundPrice (JSNumber cartSum)) minimumValue
                       (roundPrice (JSNumber (minimumValue - cartSum))))\<rparr>
              else
                (case rawCartDiscount cartSum config of
                   Inl e \<Rightarrow> Inl e
                 | Inr amount \<Rightarrow> Inr (cartWiseResult cartSum conds config amount)))
         | _ \<Rightarrow> Inl (Error ''Invalid coupon conditions or discount config'')))"

definition calculateCartWiseDiscount ::
  "cart_item js_array \<Rightarrow> coupon_conditions option \<Rightarrow> discount_config option
     \<Rightarrow> js_error + evaluation_result" where
  "calculateCartWiseDiscount cartItems couponConditions discountConfig =
     try_catch (calculateCartWiseDiscount_body cartItems couponConditions discountConfig)"

section \<open>Product-wise discount\<close>

text \<open>The discount of one eligible line; an unknown discount type leaves it at 0.\<close>

definition itemDiscount :: "discount_config \<Rightarrow> cart_item \<Rightarrow> rat" where
  "itemDiscount config item =
     (let itemTotal = price item * quantity item in
      if discount_type config = ''PERCENTAGE'' then
        (itemTotal * discount_value config) / 100
      else if discount_type config = ''FIXED_AMOUNT'' then
        discount_value config * quantity item
      else 0)"

text \<open>
  The body of \<open>cartItems.forEach\<close> in step 2, on the pair of \<open>totalDiscount\<close> and
  \<open>discountedItems\<close>.
\<close>

definition discountItem ::
  "string list \<Rightarrow> discount_config \<Rightarrow> rat \<times> discounted_item list \<Rightarrow> cart_item
     \<Rightarrow> rat \<times> discounted_item list" where
  "discountItem products config acc item =
     (if product_id item \<in> set products then
        (fst acc + itemDiscount config item,
         snd acc @ [\<lparr>di_product_id = product_id item,
                     di_quantity = quantity item,
                     di_price = price item,
                     di_itemTotal = price item * quantity item,
                     di_discount = roundPrice (JSNumber (itemDiscount config item))\<rparr>])
      else acc)"

definition calculateProductWiseDiscount_body ::
  "cart_item js_array \<Rightarrow> string js_array \<Rightarrow> discount_config option
     \<Rightarrow> js_error + evaluation_result" where
  "calculateProductWiseDiscount_body cartItems products discountConfig =
     (if missing_or_empty cartItems then
        Inr \<lparr>applicable = False, reason = Some CartIsEmpty,
             discountAmount = 0, breakdownInfo = None\<rparr>
      else if missing_or_empty products then
        Inr \<lparr>applicable = False, reason = Some NoApplicableProductsDefined,
             discountAmount = 0, breakdownInfo = None\<rparr>
      else
        (case discountConfig of
           None \<Rightarrow> Inl (Error ''Invalid discount config'')
         | Some config \<Rightarrow>
             (let acc = foldl (discountItem (elements products) config) (0, [])
                          (elements cartItems) in
              if fst acc = 0 then
                Inr \<lparr>applicable = False,
                     reason = Some NoApplicableProductsFound,
                     discountAmount = 0,
                     breakdownInfo = Some (NoProductInfo (elements products)
                       (map product_id (elements cartItems))
                       ''Cart does not contain any of the eligible products'')\<rparr>
              else
                (let rounded = roundPrice (JSNumber (fst acc)) in
                 Inr \<lparr>applicable = True,
                      reason = None,
                      discountAmount = rounded,
                      breakdownInfo = Some (ProductWiseInfo (discount_type config)
                        (discount_value config) (snd acc) rounded)\<rparr>))))"

definition calculateProductWiseDiscount ::
  "cart_item js_array \<Rightarrow> string js_array \<Rightarrow> discount_config option
     \<Rightarrow> js_error + evaluation_result" where
  "calculateProductWiseDiscount cartItems products discountConfig =
     try_catch (calculateProductWiseDiscount_body cartItems products discountConfig)"

section \<open>Buy X get Y free\<close>

text \<open>Step 2: the body of \<open>cartItems.forEach\<close>, on \<open>buyCount\<close> and \<open>buyItems\<close>.\<close>

definition countBuy ::
  "string list \<Rightarrow> rat \<times> buy_item list \<Rightarrow> cart_item \<Rightarrow> rat \<times> buy_item list" where
  "countBuy buyIds acc item =
     (if product_id item \<in> set buyIds then
        (fst acc + quantity item,
         snd acc @ [\<lparr>bi_product_id = product_id item,
                     bi_quantity = quantity item,
                     bi_price = price item\<rparr>])
      else acc)"

text \<open>
  Steps 5 and 6: \<open>cartItems.filter(item => getArray.includes(item.product_id))\<close>, then
  \<open>getItems.sort((a, b) => b.price - a.price)\<close>. \<open>Array.prototype.sort\<close> is a stable
  sort; with this comparator it orders by descending price.
\<close>

definition getItemsOf :: "string list \<Rightarrow> cart_item list \<Rightarrow> cart_item list" where
  "getItemsOf getIds cartItems = filter (\<lambda>item. product_id item \<in> set getIds) cartItems"

definition sortByPrice :: "cart_item list \<Rightarrow> cart_item list" where
  "sortByPrice getItems = sort_key (\<lambda>item. - price item) getItems"

text \<open>Step 7: the body of \<open>getItems.forEach\<close>, on the three accumulators.\<close>

record free_acc =
  acc_totalDiscount :: rat
  acc_freeItemsGiven :: rat
  acc_details :: "free_item list"

definition giveFree :: "rat \<Rightarrow> free_acc \<Rightarrow> cart_item \<Rightarrow> free_acc" where
  "giveFree freeItemsNeeded acc item =
     (if acc_freeItemsGiven acc \<ge> freeItemsNeeded then acc
      else
        (let freeQuantity = min (quantity item) (freeItemsNeeded - acc_freeItemsGiven acc);
             discount = freeQuantity * price item in
         \<lparr>acc_totalDiscount = acc_totalDiscount acc + discount,
          acc_freeItemsGiven = acc_freeItemsGiven acc + freeQuantity,
          acc_details = acc_details acc @
            [\<lparr>fi_product_id = product_id item,
              fi_quantity = freeQuantity,
              fi_price = price item,
              fi_discount = roundPrice (JSNumber discount)\<rparr>]\<rparr>))"

definition noFree :: free_acc where
  "noFree = \<lparr>acc_totalDiscount = 0, acc_freeItemsGiven = 0, acc_details = []\<rparr>"

text \<open>
  Steps 2 to 8 of \<open>calculateBxGyDiscount\<close>, after the validation of step 1
  (\<open>!buyQuantity || !getQuantity\<close> holds of an absent quantity and of 0).
\<close>

definition bxgyResult ::
  "cart_item list \<Rightarrow> rat \<Rightarrow> rat \<Rightarrow> string list \<Rightarrow> string list \<Rightarrow> rat option
     \<Rightarrow> evaluation_result" where
  "bxgyResult cartItems buyQuantity getQuantity buyIds getIds limit =
     (let bought = foldl (countBuy buyIds) (0, []) cartItems;
          buyCount = fst bought in
      if buyCount < buyQuantity then
        \<lparr>applicable = False,
         reason = Some (NeedAtLeast buyQuantity buyCount),
         discountAmount = 0,
         breakdownInfo = Some (BuyShortfallInfo buyIds buyQuantity buyCount
           (buyQuantity - buyCount) (snd bought))\<rparr>
      else
        (let applicableTimes = Math_floor (buyCount / buyQuantity);
             timesToApply = min applicableTimes (or_else_opt limit applicableTimes);
             getItems = getItemsOf getIds cartItems in
         if length getItems = 0 then
           \<lparr>applicable = False,
            reason = Some NoEligibleGetItems,
            discountAmount = 0,
            breakdownInfo = Some (NoGetInfo getIds (map product_id cartItems))\<rparr>
         else
           (let freeItemsNeeded = timesToApply * getQuantity;
                acc = foldl (giveFree freeItemsNeeded) noFree (sortByPrice getItems);
                rounded = roundPrice (JSNumber (acc_totalDiscount acc)) in
            \<lparr>applicable = True,
             reason = None,
             discountAmount = rounded,
             breakdownInfo = Some (BxGyInfo buyQuantity buyCount getQuantity applicableTimes
               limit timesToApply (acc_freeItemsGiven acc) (acc_details acc) rounded)\<rparr>)))"

definition calculateBxGyDiscount_body ::
  "cart_item js_array \<Rightarrow> rat option \<Rightarrow> rat option \<Rightarrow> string js_array \<Rightarrow> string js_array
     \<Rightarrow> rat option \<Rightarrow> js_error + evaluation_result" where
  "calculateBxGyDiscount_body cartItems buyQuantity getQuantity buyIds getIds limit =
     (if missing_or_empty cartItems then
        Inr \<lparr>applicable = False, reason = Some CartIsEmpty,
             discountAmount = 0, breakdownInfo = None\<rparr>
      else if missing_or_empty buyIds then
        Inr \<lparr>applicable = False, reason = Some NoBuyArray,
             discountAmount = 0, breakdownInfo = None\<rparr>
      else if missing_or_empty getIds then
        Inr \<lparr>applicable = False, reason = Some NoGetArray,
             discountAmount = 0, breakdownInfo = None\<rparr>
      else
        (case (buyQuantity, getQuantity) of
           (Some buyQ, Some getQ) \<Rightarrow>
             if buyQ = 0 \<or> getQ = 0 then Inl (Error ''Invalid buy or get quantity'')
             else Inr (bxgyResult (elements cartItems) buyQ getQ
                         (elements buyIds) (elements getIds) limit)
         | _ \<Rightarrow> Inl (Error ''Invalid buy or get quantity'')))"

definition calculateBxGyDiscount ::
  "cart_item js_array \<Rightarrow> rat option \<Rightarrow> rat option \<Rightarrow> string js_array \<Rightarrow> string js_array
     \<Rightarrow> rat option \<Rightarrow> js_error + evaluation_result" where
  "calculateBxGyDiscount cartItems buyQuantity getQuantity buyIds getIds limit =
     try_catch (calculateBxGyDiscount_body cartItems buyQuantity getQuantity buyIds getIds limit)"

section \<open>Notions of the specification\<close>

text \<open>
  The total of a cart, as the specification defines it: the sum of \<open>price * quantity\<close>
  over all lines. The source computes it by \<open>sumCart\<close>.
\<close>

definition cart_total :: "cart_item list \<Rightarrow> rat" where
  "cart_total cartItems = (\<Sum>item\<leftarrow>cartItems. price item * quantity item)"

text \<open>A well-formed discount specification: one of the two known kinds.\<close>

definition known_type :: "discount_config \<Rightarrow> bool" where
  "known_type config =
     (discount_type config = ''PERCENTAGE'' \<or> discount_type config = ''FIXED_AMOUNT'')"

text \<open>The minimum spend of a cart-wise coupon: \<open>minimumCartValue ?? 0\<close>.\<close>

definition minimum_of :: "coupon_conditions \<Rightarrow> rat" where
  "minimum_of conds = (case minimum_cart_value conds of None \<Rightarrow> 0 | Some m \<Rightarrow> m)"

text \<open>The object literal \<open>{ product_id: p, price: x, quantity: q }\<close>.\<close>

definition line :: "string \<Rightarrow> rat \<Rightarrow> rat \<Rightarrow> cart_item" where
  "line p x q = \<lparr>product_id = p, price = x, quantity = q\<rparr>"

text \<open>
  The lines of a cart whose product id is in a list of ids, and the per-line discount of
  the specification: \<open>(price * quantity) * value / 100\<close> under PERCENTAGE and
  \<open>value * quantity\<close> under FIXED_AMOUNT.
\<close>

definition lines_in :: "string list \<Rightarrow> cart_item list \<Rightarrow> cart_item list" where
  "lines_in ids cartItems = filter (\<lambda>item. product_id item \<in> set ids) cartItems"



text \<open>
  The number of buy units of a cart: the sum of \<open>quantity\<close> over the lines whose product
  id is in the buy list.
\<close>

definition buy_count :: "string list \<Rightarrow> cart_item list \<Rightarrow> rat" where
  "buy_count buyIds cartItems = (\<Sum>item\<leftarrow>lines_in buyIds cartItems. quantity item)"

text \<open>
  The candidate lines of a buy-X-get-Y evaluation, in the order in which step 7 walks them,
  and the number of units of the \<open>k\<close>-th candidate that \<open>freeItemsGivenDetails\<close> marks free
  (entry \<open>k\<close> of the details is about candidate \<open>k\<close>; a candidate without an entry has no
  free unit).
\<close>

definition candidates :: "string list \<Rightarrow> cart_item list \<Rightarrow> cart_item list" where
  "candidates getIds cartItems = sortByPrice (getItemsOf getIds cartItems)"

definition free_units :: "free_item list \<Rightarrow> nat \<Rightarrow> rat" where
  "free_units details k = (if k < length details then fi_quantity (details ! k) else 0)"

text \<open>
  The free quantities that the loop of step 7 hands out, line by line, from the running count
  \<open>given\<close>: the list ends where the loop starts to skip. The entry pushed for a line is
  \<open>free_detail\<close>.
\<close>

fun given_quantities :: "rat \<Rightarrow> rat \<Rightarrow> cart_item list \<Rightarrow> rat list" where
  "given_quantities needed given [] = []"
| "given_quantities needed given (item # items) =
     (if given \<ge> needed then []
      else min (quantity item) (needed - given)
             # given_quantities needed (given + min (quantity item) (needed - given)) items)"

definition free_detail :: "cart_item \<Rightarrow> rat \<Rightarrow> free_item" where
  "free_detail item freeQuantity =
     \<lparr>fi_product_id = product_id item,
      fi_quantity = freeQuantity,
      fi_price = price item,
      fi_discount = roundPrice (JSNumber (freeQuantity * price item))\<rparr>"

text \<open>
  Well-formed input, as the specification's data model has it: prices and quantities are
  not negative, nor is the discount value, the maximum discount or the repetition limit
  when they are set.
\<close>

definition nonneg_lines :: "cart_item list \<Rightarrow> bool" where
  "nonneg_lines cartItems = list_all (\<lambda>item. 0 \<le> price item \<and> 0 \<le> quantity item) cartItems"

fun nonneg_opt :: "rat option \<Rightarrow> bool" where
  "nonneg_opt None = True"
| "nonneg_opt (Some x) = (0 \<le> x)"

section \<open>The rounding helper\<close>

lemma Math_round_nearest:
  "Math_round y = of_int \<lfloor>y + 1 / 2\<rfloor> \<and> Math_round y - 1 / 2 \<le> y \<and> y < Math_round y + 1 / 2"
proof -
  have "of_int (round y) - 1 / 2 \<le> y"
    using of_int_round_le [of y] by linarith
  moreover have "y < of_int (round y) + 1 / 2"
    using of_int_round_gt [of y] by linarith
  ultimately show ?thesis
    by (simp add: Math_round_def round_def)
qed





section \<open>Errors never leave an entry point\<close>

lemma try_catch_returns: "\<exists>r. try_catch body = Inr r"
  by (cases body) (simp_all add: try_catch_def)



section \<open>Cart-wise discount: the gate, the unknown type and the cap\<close>

lemma foldl_sumCart:
  "foldl (\<lambda>sum item. sum + or_else (price item) 0 * or_else (quantity item) 0) a xs
     = a + cart_total xs"
  by (induction xs arbitrary: a) (simp_all add: cart_total_def or_else_def)

lemma sumCart_total: "sumCart cartItems = cart_total cartItems"
  by (simp add: sumCart_def foldl_sumCart)

lemma or_else_opt_minimum: "or_else_opt (minimum_cart_value conds) 0 = minimum_of conds"
  by (cases "minimum_cart_value conds") (simp_all add: minimum_of_def or_else_def)

text \<open>The \<open>try\<close> block on a non-empty cart with both configuration objects present.\<close>

lemma cartWise_body_present:
  assumes "cartItems \<noteq> []"
  shows "calculateCartWiseDiscount_body (Array cartItems) (Some conds) (Some config) =
     (if cart_total cartItems < minimum_of conds then
        Inr \<lparr>applicable = False,
             reason = Some (BelowMinimum (roundPrice (JSNumber (cart_total cartItems)))
                        (minimum_of conds)),
             discountAmount = 0,
             breakdownInfo = Some (BelowMinimumInfo
               (roundPrice (JSNumber (cart_total cartItems))) (minimum_of conds)
               (roundPrice (JSNumber (minimum_of conds - cart_total cartItems))))\<rparr>
      else
        (case rawCartDiscount (cart_total cartItems) config of
           Inl e \<Rightarrow> Inl e
         | Inr amount \<Rightarrow> Inr (cartWiseResult (cart_total cartItems) conds config amount)))"
  using assms
  by (simp add: calculateCartWiseDiscount_body_def sumCart_total or_else_opt_minimum Let_def)

lemma cartWiseResult_applicable: "applicable (cartWiseResult t conds config amount)"
  by (simp add: cartWiseResult_def cappedResult_def uncappedResult_def Let_def
      split: option.split)



text \<open>
  Claim C2, as amended. For a non-empty cart that meets the minimum-spend gate, a discount
  configuration whose type is neither PERCENTAGE nor FIXED_AMOUNT makes the \<open>try\<close> block
  throw \<open>Unknown discount type\<close>; the handler of \<open>calculateCartWiseDiscount\<close> catches it,
  and the caller receives the result with \<open>applicable = false\<close>, \<open>discountAmount = 0\<close> and
  the reason \<open>Calculation error: Unknown discount type: ...\<close>. Nothing is thrown to the
  caller.
\<close>

theorem unknown_type_is_caught:
  assumes "cartItems \<noteq> []"
    and "minimum_of conds \<le> cart_total cartItems"
    and "\<not> known_type config"
  shows "calculateCartWiseDiscount_body (Array cartItems) (Some conds) (Some config) =
           Inl (Error (''Unknown discount type: '' @ discount_type config))
         \<and> calculateCartWiseDiscount (Array cartItems) (Some conds) (Some config) =
           Inr \<lparr>applicable = False,
                reason = Some (CalculationError
                  (''Unknown discount type: '' @ discount_type config)),
                discountAmount = 0, breakdownInfo = None\<rparr>"
  using assms
  by (simp add: calculateCartWiseDiscount_def cartWise_body_present rawCartDiscount_def
      known_type_def try_catch_def caught_def)

theorem unknown_type_is_caught_witness:
  "[line ''A'' 100 2] \<noteq> []
   \<and> minimum_of \<lparr>minimum_cart_value = Some 150, maximum_discount = None\<rparr>
       \<le> cart_total [line ''A'' 100 2]
   \<and> \<not> known_type \<lparr>discount_type = ''CASHBACK'', discount_value = 5\<rparr>
   \<and> calculateCartWiseDiscount (Array [line ''A'' 100 2])
         (Some \<lparr>minimum_cart_value = Some 150, maximum_discount = None\<rparr>)
         (Some \<lparr>discount_type = ''CASHBACK'', discount_value = 5\<rparr>) =
       Inr \<lparr>applicable = False,
            reason = Some (CalculationError ''Unknown discount type: CASHBACK''),
            discountAmount = 0, breakdownInfo = None\<rparr>"
proof -
  have k: "\<not> known_type \<lparr>discount_type = ''CASHBACK'', discount_value = 5\<rparr>"
    by (simp add: known_type_def)
  have t: "minimum_of \<lparr>minimum_cart_value = Some 150, maximum_discount = None\<rparr>
       \<le> cart_total [line ''A'' 100 2]"
    by (simp add: cart_total_def line_def minimum_of_def)
  show ?thesis
    using k t
      unknown_type_is_caught [of "[line ''A'' 100 2]"
        "\<lparr>minimum_cart_value = Some 150, maximum_discount = None\<rparr>"
        "\<lparr>discount_type = ''CASHBACK'', discount_value = 5\<rparr>"]
    by simp
qed

text \<open>
  The claim as the specification states it (the error reaches the caller, and no
  \<open>applicable = false\<close> result is returned) fails on the cart \<open>[{A, 100, 1}]\<close> with minimum
  50 and the discount type \<open>BOGO\<close>.
\<close>

theorem unknown_type_counterexample:
  "calculateCartWiseDiscount (Array [line ''A'' 100 1])
      (Some \<lparr>minimum_cart_value = Some 50, maximum_discount = None\<rparr>)
      (Some \<lparr>discount_type = ''BOGO'', discount_value = 10\<rparr>) =
     Inr \<lparr>applicable = False,
          reason = Some (CalculationError ''Unknown discount type: BOGO''),
          discountAmount = 0, breakdownInfo = None\<rparr>
   \<and> (\<nexists>e. calculateCartWiseDiscount (Array [line ''A'' 100 1])
      (Some \<lparr>minimum_cart_value = Some 50, maximum_discount = None\<rparr>)
      (Some \<lparr>discount_type = ''BOGO'', discount_value = 10\<rparr>) = Inl e)"
  by (simp add: calculateCartWiseDiscount_def calculateCartWiseDiscount_body_def sumCart_def
      line_def or_else_def rawCartDiscount_def try_catch_def caught_def)

text \<open>
  Claim C3, as amended. The cap is applied only when \<open>maximum_discount\<close> is truthy: with
  \<open>maximum_discount = 0\<close>, a non-empty cart that meets the minimum and a discount of a known
  type, \<open>calculateCartWiseDiscount\<close> returns \<open>applicable = true\<close> with the uncapped discount,
  rounded to two decimals, and no capping note.
\<close>

theorem zero_maximum_is_no_cap:
  assumes "cartItems \<noteq> []"
    and "minimum_of conds \<le> cart_total cartItems"
    and "known_type config"
    and "maximum_discount conds = Some 0"
  shows "\<exists>r. calculateCartWiseDiscount (Array cartItems) (Some conds) (Some config) = Inr r
           \<and> applicable r \<and> reason r = None
           \<and> discountAmount r = roundPrice (JSNumber
                (if discount_type config = ''PERCENTAGE''
                 then cart_total cartItems * discount_value config / 100
                 else discount_value config))"
  using assms
  by (auto simp add: calculateCartWiseDiscount_def cartWise_body_present
      try_catch_def rawCartDiscount_def known_type_def cartWiseResult_def uncappedResult_def
      Let_def)

theorem zero_maximum_is_no_cap_witness:
  "[line ''A'' 200 1] \<noteq> []
   \<and> minimum_of \<lparr>minimum_cart_value = None, maximum_discount = Some 0\<rparr>
       \<le> cart_total [line ''A'' 200 1]
   \<and> known_type \<lparr>discount_type = ''FIXED_AMOUNT'', discount_value = 50\<rparr>
   \<and> (\<exists>r. calculateCartWiseDiscount (Array [line ''A'' 200 1])
            (Some \<lparr>minimum_cart_value = None, maximum_discount = Some 0\<rparr>)
            (Some \<lparr>discount_type = ''FIXED_AMOUNT'', discount_value = 50\<rparr>) = Inr r
          \<and> applicable r \<and> reason r = None \<and> discountAmount r = 50)"
proof -
  have k: "known_type \<lparr>discount_type = ''FIXED_AMOUNT'', discount_value = 50\<rparr>"
    by (simp add: known_type_def)
  have t: "minimum_of \<lparr>minimum_cart_value = None, maximum_discount = Some 0\<rparr>
       \<le> cart_total [line ''A'' 200 1]"
    by (simp add: cart_total_def line_def minimum_of_def)
  have r: "roundPrice (JSNumber 50) = 50"
    by (simp add: Math_round_def)
  show ?thesis
    using k t r
      zero_maximum_is_no_cap [of "[line ''A'' 200 1]"
        "\<lparr>minimum_cart_value = None, maximum_discount = Some 0\<rparr>"
        "\<lparr>discount_type = ''FIXED_AMOUNT'', discount_value = 50\<rparr>"]
    by simp
qed

text \<open>
  The claim as the specification states it (a cap of 0 gives \<open>discountAmount = 0\<close>) fails on
  the cart \<open>[{A, 100, 1}]\<close> with 10 percent and \<open>maximum_discount = 0\<close>: the discount is 10.
\<close>

theorem zero_maximum_counterexample:
  "calculateCartWiseDiscount (Array [line ''A'' 100 1])
      (Some \<lparr>minimum_cart_value = None, maximum_discount = Some 0\<rparr>)
      (Some \<lparr>discount_type = ''PERCENTAGE'', discount_value = 10\<rparr>) =
     Inr \<lparr>applicable = True, reason = None, discountAmount = 10,
          breakdownInfo = Some (CartWiseInfo 100 ''PERCENTAGE'' 10 10 90)\<rparr>
   \<and> (10::rat) \<noteq> 0"
  by (simp add: calculateCartWiseDiscount_def calculateCartWiseDiscount_body_def sumCart_def
      line_def or_else_def rawCartDiscount_def try_catch_def cartWiseResult_def
      uncappedResult_def Math_round_def Let_def)

section \<open>Product-wise discount: the per-line discounts\<close>


lemma foldl_discountItem:
  "foldl (discountItem ids config) acc xs =
     (fst acc + (\<Sum>item\<leftarrow>lines_in ids xs. itemDiscount config item),
      snd acc @ map (\<lambda>item. \<lparr>di_product_id = product_id item,
                     di_quantity = quantity item,
                     di_price = price item,
                     di_itemTotal = price item * quantity item,
                     di_discount = roundPrice (JSNumber (itemDiscount config item))\<rparr>)
                 (lines_in ids xs))"
  by (induction xs arbitrary: acc) (simp_all add: discountItem_def lines_in_def)

lemma productWise_body_present:
  assumes "cartItems \<noteq> []" and "ids \<noteq> []"
  shows "calculateProductWiseDiscount (Array cartItems) (Array ids) (Some config) =
     (let s = (\<Sum>item\<leftarrow>lines_in ids cartItems. itemDiscount config item) in
      if s = 0 then
        Inr \<lparr>applicable = False, reason = Some NoApplicableProductsFound, discountAmount = 0,
             breakdownInfo = Some (NoProductInfo ids (map product_id cartItems)
               ''Cart does not contain any of the eligible products'')\<rparr>
      else
        Inr \<lparr>applicable = True, reason = None,
             discountAmount = roundPrice (JSNumber s),
             breakdownInfo = Some (ProductWiseInfo (discount_type config) (discount_value config)
               (map (\<lambda>item. \<lparr>di_product_id = product_id item,
                     di_quantity = quantity item,
                     di_price = price item,
                     di_itemTotal = price item * quantity item,
                     di_discount = roundPrice (JSNumber (itemDiscount config item))\<rparr>)
                 (lines_in ids cartItems))
               (roundPrice (JSNumber s)))\<rparr>)"
  using assms
  by (simp add: calculateProductWiseDiscount_def calculateProductWiseDiscount_body_def
      foldl_discountItem try_catch_def Let_def)




section \<open>Product-wise discount: removing an ineligible line\<close>

lemma lines_in_remove:
  "product_id l \<notin> set ids \<Longrightarrow> lines_in ids (xs @ l # ys) = lines_in ids (xs @ ys)"
  by (simp add: lines_in_def)

lemma productWise_empty_cart:
  "calculateProductWiseDiscount (Array []) ids config =
     Inr \<lparr>applicable = False, reason = Some CartIsEmpty, discountAmount = 0,
          breakdownInfo = None\<rparr>"
  by (simp add: calculateProductWiseDiscount_def calculateProductWiseDiscount_body_def
      try_catch_def)

lemma productWise_no_ids:
  "cartItems \<noteq> [] \<Longrightarrow> calculateProductWiseDiscount (Array cartItems) (Array []) config =
     Inr \<lparr>applicable = False, reason = Some NoApplicableProductsDefined, discountAmount = 0,
          breakdownInfo = None\<rparr>"
  by (simp add: calculateProductWiseDiscount_def calculateProductWiseDiscount_body_def
      try_catch_def)

text \<open>
  Claim C8, as amended. Removing from a cart a line whose \<open>product_id\<close> is not in the
  eligible list never changes \<open>applicable\<close> or \<open>discountAmount\<close> of
  \<open>calculateProductWiseDiscount\<close>; when the result is applicable the whole result, with its
  breakdown, is unchanged; the reason is unchanged as long as a line remains. (In the
  not-applicable result the breakdown lists the product ids of all cart lines, and a cart
  left empty gets the reason \<open>Cart is empty\<close>.)
\<close>

theorem ineligible_line_removal:
  assumes "product_id l \<notin> set ids"
  shows "\<exists>r r'. calculateProductWiseDiscount (Array (xs @ l # ys)) (Array ids) (Some config) = Inr r
     \<and> calculateProductWiseDiscount (Array (xs @ ys)) (Array ids) (Some config) = Inr r'
     \<and> applicable r' = applicable r
     \<and> discountAmount r' = discountAmount r
     \<and> (applicable r \<longrightarrow> r' = r)
     \<and> (xs @ ys \<noteq> [] \<longrightarrow> reason r' = reason r)"
proof (cases "ids = []")
  case True
  then show ?thesis
    by (cases "xs @ ys = []") (simp_all add: productWise_empty_cart productWise_no_ids)
next
  case ids: False
  show ?thesis
  proof (cases "xs @ ys = []")
    case True
    with ids assms show ?thesis
      by (simp add: productWise_empty_cart productWise_body_present lines_in_def)
  next
    case False
    with ids show ?thesis
      by (simp add: productWise_body_present lines_in_remove [OF assms] Let_def)
  qed
qed

theorem ineligible_line_removal_witness:
  "product_id (line ''P2'' 50 1) \<notin> set [''P1'', ''P3'']
   \<and> (\<exists>r r'. calculateProductWiseDiscount
            (Array ([line ''P1'' 100 2] @ line ''P2'' 50 1 # [line ''P3'' 75 1]))
            (Array [''P1'', ''P3''])
            (Some \<lparr>discount_type = ''PERCENTAGE'', discount_value = 20\<rparr>) = Inr r
        \<and> calculateProductWiseDiscount
            (Array ([line ''P1'' 100 2] @ [line ''P3'' 75 1]))
            (Array [''P1'', ''P3''])
            (Some \<lparr>discount_type = ''PERCENTAGE'', discount_value = 20\<rparr>) = Inr r'
        \<and> applicable r' = applicable r
        \<and> discountAmount r' = discountAmount r
        \<and> (applicable r \<longrightarrow> r' = r)
        \<and> ([line ''P1'' 100 2] @ [line ''P3'' 75 1] \<noteq> [] \<longrightarrow> reason r' = reason r))"
proof -
  have n: "product_id (line ''P2'' 50 1) \<notin> set [''P1'', ''P3'']"
    by (simp add: line_def)
  show ?thesis
    using n ineligible_line_removal [OF n, of "[line ''P1'' 100 2]" "[line ''P3'' 75 1]"
        "\<lparr>discount_type = ''PERCENTAGE'', discount_value = 20\<rparr>"]
    by blast
qed

text \<open>
  The claim as the specification states it (the same result, with its reason and breakdown)
  fails on the cart \<open>[{A, 100, 1}, {B, 50, 1}]\<close> with the eligible list \<open>[C]\<close>: line \<open>A\<close>
  is not eligible, and removing it changes \<open>cartProducts\<close> in the breakdown from
  \<open>[A, B]\<close> to \<open>[B]\<close>.
\<close>

theorem ineligible_line_removal_counterexample:
  "product_id (line ''A'' 100 1) \<notin> set [''C'']
   \<and> calculateProductWiseDiscount (Array [line ''A'' 100 1, line ''B'' 50 1]) (Array [''C''])
        (Some \<lparr>discount_type = ''PERCENTAGE'', discount_value = 20\<rparr>)
      = Inr \<lparr>applicable = False, reason = Some NoApplicableProductsFound, discountAmount = 0,
             breakdownInfo = Some (NoProductInfo [''C''] [''A'', ''B'']
               ''Cart does not contain any of the eligible products'')\<rparr>
   \<and> calculateProductWiseDiscount (Array [line ''B'' 50 1]) (Array [''C''])
        (Some \<lparr>discount_type = ''PERCENTAGE'', discount_value = 20\<rparr>)
      = Inr \<lparr>applicable = False, reason = Some NoApplicableProductsFound, discountAmount = 0,
             breakdownInfo = Some (NoProductInfo [''C''] [''B'']
               ''Cart does not contain any of the eligible products'')\<rparr>
   \<and> calculateProductWiseDiscount (Array [line ''A'' 100 1, line ''B'' 50 1]) (Array [''C''])
        (Some \<lparr>discount_type = ''PERCENTAGE'', discount_value = 20\<rparr>)
      \<noteq> calculateProductWiseDiscount (Array [line ''B'' 50 1]) (Array [''C''])
        (Some \<lparr>discount_type = ''PERCENTAGE'', discount_value = 20\<rparr>)"
  by (simp add: calculateProductWiseDiscount_def calculateProductWiseDiscount_body_def
      discountItem_def line_def try_catch_def)

section \<open>Buy X get Y free: the loops\<close>

lemma getItemsOf_lines_in: "getItemsOf ids xs = lines_in ids xs"
  by (simp add: getItemsOf_def lines_in_def)

lemma foldl_countBuy:
  "foldl (countBuy ids) acc xs =
     (fst acc + buy_count ids xs,
      snd acc @ map (\<lambda>item. \<lparr>bi_product_id = product_id item, bi_quantity = quantity item,
                             bi_price = price item\<rparr>) (lines_in ids xs))"
  by (induction xs arbitrary: acc) (simp_all add: countBuy_def buy_count_def lines_in_def)

lemma foldl_giveFree:
  "foldl (giveFree needed) acc xs =
     \<lparr>acc_totalDiscount = acc_totalDiscount acc
        + (\<Sum>d\<leftarrow>map2 free_detail xs (given_quantities needed (acc_freeItemsGiven acc) xs).
             fi_quantity d * fi_price d),
      acc_freeItemsGiven = acc_freeItemsGiven acc
        + sum_list (given_quantities needed (acc_freeItemsGiven acc) xs),
      acc_details = acc_details acc
        @ map2 free_detail xs (given_quantities needed (acc_freeItemsGiven acc) xs)\<rparr>"
proof (induction xs arbitrary: acc)
  case Nil
  show ?case by simp
next
  case (Cons x xs)
  show ?case
  proof (cases "needed \<le> acc_freeItemsGiven acc")
    case True
    then have skip: "giveFree needed acc x = acc"
      by (simp add: giveFree_def)
    have "given_quantities needed (acc_freeItemsGiven acc) xs = []"
      using True by (cases xs) simp_all
    with True skip Cons.IH [of acc] show ?thesis by simp
  next
    case False
    define f where "f = min (quantity x) (needed - acc_freeItemsGiven acc)"
    define acc' where "acc' = giveFree needed acc x"
    have fields: "acc_totalDiscount acc' = acc_totalDiscount acc + f * price x"
      "acc_freeItemsGiven acc' = acc_freeItemsGiven acc + f"
      "acc_details acc' = acc_details acc @ [free_detail x f]"
      using False by (simp_all add: acc'_def f_def giveFree_def Let_def free_detail_def)
    have "foldl (giveFree needed) acc (x # xs) = foldl (giveFree needed) acc' xs"
      by (simp add: acc'_def)
    also note Cons.IH [of acc']
    finally show ?thesis
      using False by (simp add: fields f_def [symmetric] free_detail_def add.assoc)
  qed
qed

lemma given_length: "length (given_quantities needed g xs) \<le> length xs"
  by (induction xs arbitrary: g) simp_all

lemma given_le_quantity:
  "k < length (given_quantities needed g xs) \<Longrightarrow>
     given_quantities needed g xs ! k \<le> quantity (xs ! k)"
proof (induction xs arbitrary: g k)
  case Nil
  then show ?case by simp
next
  case (Cons x xs)
  then show ?case
    by (cases k) (auto split: if_splits)
qed

lemma given_within: "g \<le> needed \<Longrightarrow> g + sum_list (given_quantities needed g xs) \<le> needed"
proof (induction xs arbitrary: g)
  case Nil
  then show ?case by simp
next
  case (Cons x xs)
  show ?case
  proof (cases "needed \<le> g")
    case True
    with Cons.prems show ?thesis by simp
  next
    case False
    have "g + min (quantity x) (needed - g) \<le> needed" by simp
    from Cons.IH [OF this] False show ?thesis
      by (simp add: add.assoc)
  qed
qed

lemma given_partial_is_last:
  "i < length (given_quantities needed g xs) \<Longrightarrow>
     given_quantities needed g xs ! i < quantity (xs ! i) \<Longrightarrow>
     length (given_quantities needed g xs) = Suc i"
proof (induction xs arbitrary: g i)
  case Nil
  then show ?case by simp
next
  case (Cons x xs)
  from Cons.prems(1) have open_: "\<not> needed \<le> g"
    by (auto split: if_splits)
  show ?case
  proof (cases i)
    case 0
    with Cons.prems(2) open_ have "min (quantity x) (needed - g) < quantity x"
      by simp
    then have "g + min (quantity x) (needed - g) = needed"
      by (simp add: min_def split: if_splits)
    then have "given_quantities needed (g + min (quantity x) (needed - g)) xs = []"
      by (cases xs) simp_all
    with 0 open_ show ?thesis by simp
  next
    case (Suc i')
    with Cons.prems open_ Cons.IH [of i' "g + min (quantity x) (needed - g)"]
    show ?thesis by simp
  qed
qed


text \<open>The applicable result of steps 4 to 8, with the loop unrolled by \<open>foldl_giveFree\<close>.\<close>

lemma bxgyResult_applicable:
  assumes "\<not> buy_count buyIds cartItems < buyQ" and "lines_in getIds cartItems \<noteq> []"
  shows "bxgyResult cartItems buyQ getQ buyIds getIds limit =
     (let ta = Math_floor (buy_count buyIds cartItems / buyQ);
          tap = min ta (or_else_opt limit ta);
          fs = given_quantities (tap * getQ) 0 (candidates getIds cartItems);
          ds = map2 free_detail (candidates getIds cartItems) fs;
          rounded = roundPrice (JSNumber (\<Sum>d\<leftarrow>ds. fi_quantity d * fi_price d)) in
      \<lparr>applicable = True, reason = None, discountAmount = rounded,
       breakdownInfo = Some (BxGyInfo buyQ (buy_count buyIds cartItems) getQ ta limit tap
         (sum_list fs) ds rounded)\<rparr>)"
  using assms
  by (simp add: bxgyResult_def foldl_countBuy foldl_giveFree getItemsOf_lines_in
      candidates_def noFree_def Let_def)

lemma bxgyResult_not_applicable:
  assumes "buy_count buyIds cartItems < buyQ \<or> lines_in getIds cartItems = []"
  shows "\<not> applicable (bxgyResult cartItems buyQ getQ buyIds getIds limit)
     \<and> discountAmount (bxgyResult cartItems buyQ getQ buyIds getIds limit) = 0"
  using assms
  by (auto simp add: bxgyResult_def foldl_countBuy getItemsOf_lines_in Let_def)

lemma bxgy_present:
  assumes "cartItems \<noteq> []" and "buyIds \<noteq> []" and "getIds \<noteq> []"
    and "buyQ \<noteq> 0" and "getQ \<noteq> 0"
  shows "calculateBxGyDiscount (Array cartItems) (Some buyQ) (Some getQ) (Array buyIds)
           (Array getIds) limit
         = Inr (bxgyResult cartItems buyQ getQ buyIds getIds limit)"
  using assms
  by (simp add: calculateBxGyDiscount_def calculateBxGyDiscount_body_def try_catch_def)

lemma candidates_descending:
  assumes "i \<le> j" and "j < length (candidates getIds cartItems)"
  shows "price (candidates getIds cartItems ! j) \<le> price (candidates getIds cartItems ! i)"
proof -
  let ?gs = "candidates getIds cartItems"
  have "sorted (map (\<lambda>item. - price item) ?gs)"
    by (simp add: candidates_def sortByPrice_def)
  from sorted_nth_mono [OF this, of i j] assms show ?thesis
    by simp
qed

lemma candidates_mset:
  "mset (candidates getIds cartItems) = mset (lines_in getIds cartItems)"
  by (simp add: candidates_def sortByPrice_def getItemsOf_lines_in)

lemma free_units_given:
  assumes "length fs \<le> length gs"
  shows "free_units (map2 free_detail gs fs) k = (if k < length fs then fs ! k else 0)"
  using assms by (simp add: free_units_def free_detail_def)

lemma no_cheaper_unit_first:
  assumes i: "i < length (candidates getIds cartItems)"
    and j: "j < length (candidates getIds cartItems)"
    and free_j: "0 < free_units (map2 free_detail (candidates getIds cartItems)
                   (given_quantities needed 0 (candidates getIds cartItems))) j"
    and unfree_i: "free_units (map2 free_detail (candidates getIds cartItems)
                   (given_quantities needed 0 (candidates getIds cartItems))) i
                 < quantity (candidates getIds cartItems ! i)"
  shows "price (candidates getIds cartItems ! i) \<le> price (candidates getIds cartItems ! j)"
proof -
  let ?gs = "candidates getIds cartItems"
  let ?fs = "given_quantities needed 0 ?gs"
  have len: "length ?fs \<le> length ?gs" by (rule given_length)
  from free_j have jf: "j < length ?fs"
    by (simp add: free_units_given [OF len] split: if_splits)
  have "j \<le> i"
  proof (cases "i < length ?fs")
    case True
    with unfree_i have "?fs ! i < quantity (?gs ! i)"
      by (simp add: free_units_given [OF len])
    from given_partial_is_last [OF True this] jf show ?thesis by simp
  next
    case False
    with jf show ?thesis by simp
  qed
  from candidates_descending [OF this i] show ?thesis .
qed


lemma bxgy_applicable_cases:
  assumes "calculateBxGyDiscount cartItems buyQ getQ buyIds getIds limit = Inr r"
    and "applicable r"
  obtains bq gq where "buyQ = Some bq" and "getQ = Some gq"
    and "r = bxgyResult (elements cartItems) bq gq (elements buyIds) (elements getIds) limit"
    and "\<not> buy_count (elements buyIds) (elements cartItems) < bq"
    and "lines_in (elements getIds) (elements cartItems) \<noteq> []"
proof -
  from assms obtain bq gq where q: "buyQ = Some bq" "getQ = Some gq"
    and r: "r = bxgyResult (elements cartItems) bq gq (elements buyIds) (elements getIds) limit"
    by (auto simp add: calculateBxGyDiscount_def calculateBxGyDiscount_body_def try_catch_def
        caught_def split: if_splits option.splits)
  from assms(2) r bxgyResult_not_applicable
    [of "elements buyIds" "elements cartItems" bq "elements getIds" gq limit]
  have "\<not> buy_count (elements buyIds) (elements cartItems) < bq"
    and "lines_in (elements getIds) (elements cartItems) \<noteq> []"
    by auto
  with q r that show thesis by blast
qed

lemma detail_quantities:
  assumes "length fs \<le> length gs"
  shows "map fi_quantity (map2 free_detail gs fs) = fs"
proof -
  have "map fi_quantity (map2 free_detail gs fs) = map snd (zip gs fs)"
    by (simp add: free_detail_def case_prod_unfold)
  with assms show ?thesis
    by (simp add: map_snd_zip_take)
qed

lemma times_applicable_positive:
  assumes "0 < buyQ" and "buyQ \<le> c"
  shows "1 \<le> Math_floor (c / buyQ)"
proof -
  from assms have "1 \<le> c / buyQ" by simp
  then have "1 \<le> \<lfloor>c / buyQ\<rfloor>" by linarith
  then show ?thesis by (simp add: Math_floor_def)
qed

section \<open>Buy X get Y free: which units are free\<close>

text \<open>
  Claim C4. In every applicable result of \<open>calculateBxGyDiscount\<close> the free units are the
  highest-priced candidates. The candidates are the cart lines whose product id is in the get
  list, walked in descending order of price; entry \<open>k\<close> of \<open>freeItemsGivenDetails\<close> is about
  candidate \<open>k\<close>. There are no two candidates \<open>i\<close> and \<open>j\<close> such that a unit of \<open>j\<close> is marked
  free, a unit of \<open>i\<close> is not, and \<open>i\<close> has the higher price.
\<close>

theorem highest_priced_first:
  assumes "calculateBxGyDiscount cartItems buyQ getQ buyIds getIds limit = Inr r"
    and "applicable r"
  shows "\<exists>bq found gq ta tap given details td.
     breakdownInfo r = Some (BxGyInfo bq found gq ta limit tap given details td)
     \<and> mset (candidates (elements getIds) (elements cartItems))
         = mset (lines_in (elements getIds) (elements cartItems))
     \<and> length details \<le> length (candidates (elements getIds) (elements cartItems))
     \<and> (\<forall>k<length details.
           fi_product_id (details ! k)
             = product_id (candidates (elements getIds) (elements cartItems) ! k)
           \<and> fi_price (details ! k)
             = price (candidates (elements getIds) (elements cartItems) ! k))
     \<and> (\<forall>i<length (candidates (elements getIds) (elements cartItems)).
         \<forall>j<length (candidates (elements getIds) (elements cartItems)).
           0 < free_units details j
           \<and> free_units details i
               < quantity (candidates (elements getIds) (elements cartItems) ! i)
           \<longrightarrow> price (candidates (elements getIds) (elements cartItems) ! i)
               \<le> price (candidates (elements getIds) (elements cartItems) ! j))
     \<and> (\<forall>i j. i \<le> j \<and> j < length (candidates (elements getIds) (elements cartItems))
           \<longrightarrow> price (candidates (elements getIds) (elements cartItems) ! j)
               \<le> price (candidates (elements getIds) (elements cartItems) ! i))"
proof -
  let ?gs = "candidates (elements getIds) (elements cartItems)"
  from assms obtain bq gq
    where r: "r = bxgyResult (elements cartItems) bq gq (elements buyIds) (elements getIds) limit"
      and enough: "\<not> buy_count (elements buyIds) (elements cartItems) < bq"
      and some: "lines_in (elements getIds) (elements cartItems) \<noteq> []"
    by (rule bxgy_applicable_cases)
  define ta where "ta = Math_floor (buy_count (elements buyIds) (elements cartItems) / bq)"
  define tap where "tap = min ta (or_else_opt limit ta)"
  define fs where "fs = given_quantities (tap * gq) 0 ?gs"
  define ds where "ds = map2 free_detail ?gs fs"
  have len: "length fs \<le> length ?gs"
    unfolding fs_def by (rule given_length)
  have info: "breakdownInfo r = Some (BxGyInfo bq (buy_count (elements buyIds) (elements cartItems))
      gq ta limit tap (sum_list fs) ds
      (roundPrice (JSNumber (\<Sum>d\<leftarrow>ds. fi_quantity d * fi_price d))))"
    unfolding r bxgyResult_applicable [OF enough some]
    by (simp add: Let_def ta_def tap_def fs_def ds_def)
  have dlen: "length ds \<le> length ?gs"
    by (simp add: ds_def)
  have entries: "\<forall>k<length ds. fi_product_id (ds ! k) = product_id (?gs ! k)
       \<and> fi_price (ds ! k) = price (?gs ! k)"
    by (simp add: ds_def free_detail_def)
  have order: "\<forall>i<length ?gs. \<forall>j<length ?gs.
       0 < free_units ds j \<and> free_units ds i < quantity (?gs ! i)
       \<longrightarrow> price (?gs ! i) \<le> price (?gs ! j)"
    unfolding ds_def fs_def using no_cheaper_unit_first by blast
  have desc: "\<forall>i j. i \<le> j \<and> j < length ?gs \<longrightarrow> price (?gs ! j) \<le> price (?gs ! i)"
    using candidates_descending by blast
  from info candidates_mset dlen entries order desc show ?thesis
    by blast
qed


theorem highest_priced_first_witness:
  "calculateBxGyDiscount
      (Array [line ''A'' 100 2, line ''D'' 100 1, line ''E'' 500 1, line ''F'' 200 1])
      (Some 2) (Some 1) (Array [''A'', ''B'']) (Array [''D'', ''E'', ''F'']) (Some 1)
     = Inr \<lparr>applicable = True, reason = None, discountAmount = 500,
          breakdownInfo = Some (BxGyInfo 2 2 1 1 (Some 1) 1 1
            [\<lparr>fi_product_id = ''E'', fi_quantity = 1, fi_price = 500, fi_discount = 500\<rparr>]
            500)\<rparr>
   \<and> candidates [''D'', ''E'', ''F'']
        [line ''A'' 100 2, line ''D'' 100 1, line ''E'' 500 1, line ''F'' 200 1]
     = [line ''E'' 500 1, line ''F'' 200 1, line ''D'' 100 1]
   \<and> free_units
        [\<lparr>fi_product_id = ''E'', fi_quantity = 1, fi_price = 500, fi_discount = 500\<rparr>] 0 = 1
   \<and> free_units
        [\<lparr>fi_product_id = ''E'', fi_quantity = 1, fi_price = 500, fi_discount = 500\<rparr>] 1 = 0
   \<and> free_units
        [\<lparr>fi_product_id = ''E'', fi_quantity = 1, fi_price = 500, fi_discount = 500\<rparr>] 2 = 0"
proof -
  let ?r = "\<lparr>applicable = True, reason = None, discountAmount = 500,
          breakdownInfo = Some (BxGyInfo 2 2 1 1 (Some 1) 1 1
            [\<lparr>fi_product_id = ''E'', fi_quantity = 1, fi_price = 500, fi_discount = 500\<rparr>]
            500)\<rparr>"
  have run: "calculateBxGyDiscount
      (Array [line ''A'' 100 2, line ''D'' 100 1, line ''E'' 500 1, line ''F'' 200 1])
      (Some 2) (Some 1) (Array [''A'', ''B'']) (Array [''D'', ''E'', ''F'']) (Some 1) = Inr ?r"
    by code_simp
  have appl: "applicable ?r" by simp
  have cs: "candidates [''D'', ''E'', ''F'']
        [line ''A'' 100 2, line ''D'' 100 1, line ''E'' 500 1, line ''F'' 200 1]
     = [line ''E'' 500 1, line ''F'' 200 1, line ''D'' 100 1]"
    by code_simp
  from highest_priced_first [OF run appl] run cs show ?thesis
    by (simp add: free_units_def)
qed

section \<open>Buy X get Y free: how many units are free\<close>

text \<open>
  Claim C5. For a buy-X-get-Y evaluation with \<open>buyCount \<ge> buyQuantity > 0\<close> and
  \<open>getQuantity > 0\<close> (the result is applicable exactly when the cart has a candidate line):
  \<open>timesApplicable = floor (buyCount / buyQuantity)\<close>; \<open>timesApplied \<le> timesApplicable\<close>;
  with a positive repetition limit \<open>timesApplied = min timesApplicable limit \<le> limit\<close>, with
  none \<open>timesApplied = timesApplicable\<close>; \<open>totalFreeItemsGiven\<close> is the sum of the free
  quantities of the detail entries and is at most \<open>timesApplied * getQuantity\<close> (for a
  repetition limit that is absent or not negative); and no line gives more free units than
  its own quantity.
\<close>

theorem repetitions_and_free_units:
  assumes "cartItems \<noteq> []" and "buyIds \<noteq> []" and "getIds \<noteq> []"
    and "0 < buyQ" and "buyQ \<le> buy_count buyIds cartItems" and "0 < getQ"
  shows "\<exists>r. calculateBxGyDiscount (Array cartItems) (Some buyQ) (Some getQ) (Array buyIds)
           (Array getIds) limit = Inr r
     \<and> (applicable r \<longleftrightarrow> lines_in getIds cartItems \<noteq> [])
     \<and> (applicable r \<longrightarrow> (\<exists>tap given details td.
          breakdownInfo r = Some (BxGyInfo buyQ (buy_count buyIds cartItems) getQ
            (of_int \<lfloor>buy_count buyIds cartItems / buyQ\<rfloor>) limit tap given details td)
          \<and> tap \<le> of_int \<lfloor>buy_count buyIds cartItems / buyQ\<rfloor>
          \<and> (\<forall>l. limit = Some l \<and> 0 < l \<longrightarrow>
                tap = min (of_int \<lfloor>buy_count buyIds cartItems / buyQ\<rfloor>) l \<and> tap \<le> l)
          \<and> (limit = None \<longrightarrow> tap = of_int \<lfloor>buy_count buyIds cartItems / buyQ\<rfloor>)
          \<and> given = sum_list (map fi_quantity details)
          \<and> (nonneg_opt limit \<longrightarrow> given \<le> tap * getQ)
          \<and> length details \<le> length (candidates getIds cartItems)
          \<and> (\<forall>k<length details.
                fi_product_id (details ! k) = product_id (candidates getIds cartItems ! k)
                \<and> fi_quantity (details ! k) \<le> quantity (candidates getIds cartItems ! k))))"
proof -
  let ?gs = "candidates getIds cartItems"
  let ?r = "bxgyResult cartItems buyQ getQ buyIds getIds limit"
  define ta where "ta = Math_floor (buy_count buyIds cartItems / buyQ)"
  define tap where "tap = min ta (or_else_opt limit ta)"
  define fs where "fs = given_quantities (tap * getQ) 0 ?gs"
  define ds where "ds = map2 free_detail ?gs fs"
  from assms have ret: "calculateBxGyDiscount (Array cartItems) (Some buyQ) (Some getQ)
      (Array buyIds) (Array getIds) limit = Inr ?r"
    by (simp add: bxgy_present)
  from assms(5) have enough: "\<not> buy_count buyIds cartItems < buyQ" by simp
  have ta_floor: "ta = of_int \<lfloor>buy_count buyIds cartItems / buyQ\<rfloor>"
    by (simp add: ta_def Math_floor_def)
  have ta_pos: "1 \<le> ta"
    unfolding ta_def using assms(4,5) by (rule times_applicable_positive)
  have len: "length fs \<le> length ?gs"
    unfolding fs_def by (rule given_length)
  have appl: "applicable ?r \<longleftrightarrow> lines_in getIds cartItems \<noteq> []"
  proof (cases "lines_in getIds cartItems = []")
    case True
    with bxgyResult_not_applicable [of buyIds cartItems buyQ getIds getQ limit]
    show ?thesis by simp
  next
    case False
    with enough show ?thesis
      by (simp add: bxgyResult_applicable Let_def)
  qed
  have body: "\<exists>tap given details td.
          breakdownInfo ?r = Some (BxGyInfo buyQ (buy_count buyIds cartItems) getQ
            (of_int \<lfloor>buy_count buyIds cartItems / buyQ\<rfloor>) limit tap given details td)
          \<and> tap \<le> of_int \<lfloor>buy_count buyIds cartItems / buyQ\<rfloor>
          \<and> (\<forall>l. limit = Some l \<and> 0 < l \<longrightarrow>
                tap = min (of_int \<lfloor>buy_count buyIds cartItems / buyQ\<rfloor>) l \<and> tap \<le> l)
          \<and> (limit = None \<longrightarrow> tap = of_int \<lfloor>buy_count buyIds cartItems / buyQ\<rfloor>)
          \<and> given = sum_list (map fi_quantity details)
          \<and> (nonneg_opt limit \<longrightarrow> given \<le> tap * getQ)
          \<and> length details \<le> length (candidates getIds cartItems)
          \<and> (\<forall>k<length details.
                fi_product_id (details ! k) = product_id (candidates getIds cartItems ! k)
                \<and> fi_quantity (details ! k) \<le> quantity (candidates getIds cartItems ! k))"
    if some: "lines_in getIds cartItems \<noteq> []"
  proof -
    have info: "breakdownInfo ?r = Some (BxGyInfo buyQ (buy_count buyIds cartItems) getQ
        (of_int \<lfloor>buy_count buyIds cartItems / buyQ\<rfloor>) limit tap (sum_list fs) ds
        (roundPrice (JSNumber (\<Sum>d\<leftarrow>ds. fi_quantity d * fi_price d))))"
      unfolding bxgyResult_applicable [OF enough some]
      by (simp add: Let_def ta_def tap_def fs_def ds_def Math_floor_def)
    have le_ta: "tap \<le> of_int \<lfloor>buy_count buyIds cartItems / buyQ\<rfloor>"
      by (simp add: tap_def ta_floor [symmetric])
    have lim: "\<forall>l. limit = Some l \<and> 0 < l \<longrightarrow>
        tap = min (of_int \<lfloor>buy_count buyIds cartItems / buyQ\<rfloor>) l \<and> tap \<le> l"
      by (simp add: tap_def ta_floor [symmetric] or_else_def)
    have nolim: "limit = None \<longrightarrow> tap = of_int \<lfloor>buy_count buyIds cartItems / buyQ\<rfloor>"
      by (simp add: tap_def ta_floor [symmetric])
    have qs: "sum_list fs = sum_list (map fi_quantity ds)"
      unfolding ds_def detail_quantities [OF len] ..
    have within: "nonneg_opt limit \<longrightarrow> sum_list fs \<le> tap * getQ"
    proof
      assume nn: "nonneg_opt limit"
      have "0 \<le> or_else_opt limit ta"
        using nn ta_pos by (cases limit) (simp_all add: or_else_def)
      with ta_pos have "0 \<le> tap" by (simp add: tap_def)
      with assms(6) have "0 \<le> tap * getQ" by simp
      from given_within [OF this, of ?gs] show "sum_list fs \<le> tap * getQ"
        by (simp add: fs_def)
    qed
    have dlen: "length ds \<le> length ?gs"
      by (simp add: ds_def)
    have entries: "\<forall>k<length ds. fi_product_id (ds ! k) = product_id (?gs ! k)
        \<and> fi_quantity (ds ! k) \<le> quantity (?gs ! k)"
    proof (intro allI impI)
      fix k assume "k < length ds"
      then have k: "k < length fs" "k < length ?gs"
        by (simp_all add: ds_def)
      then have "ds ! k = free_detail (?gs ! k) (fs ! k)"
        by (simp add: ds_def)
      moreover have "fs ! k \<le> quantity (?gs ! k)"
        using k(1) unfolding fs_def by (rule given_le_quantity)
      ultimately show "fi_product_id (ds ! k) = product_id (?gs ! k)
        \<and> fi_quantity (ds ! k) \<le> quantity (?gs ! k)"
        by (simp add: free_detail_def)
    qed
    from info le_ta lim nolim qs within dlen entries show ?thesis
      by blast
  qed
  from ret appl body show ?thesis
    by blast
qed

theorem repetitions_and_free_units_witness:
  "[line ''A'' 100 6, line ''D'' 500 1, line ''E'' 400 1, line ''F'' 300 1] \<noteq> []
   \<and> [''A'', ''B'', ''C''] \<noteq> [] \<and> [''D'', ''E'', ''F''] \<noteq> []
   \<and> (0::rat) < 2
   \<and> 2 \<le> buy_count [''A'', ''B'', ''C'']
           [line ''A'' 100 6, line ''D'' 500 1, line ''E'' 400 1, line ''F'' 300 1]
   \<and> (0::rat) < 1
   \<and> nonneg_opt (Some 3)
   \<and> (\<exists>r. calculateBxGyDiscount
            (Array [line ''A'' 100 6, line ''D'' 500 1, line ''E'' 400 1, line ''F'' 300 1])
            (Some 2) (Some 1) (Array [''A'', ''B'', ''C'']) (Array [''D'', ''E'', ''F''])
            (Some 3) = Inr r
        \<and> applicable r
        \<and> breakdownInfo r = Some (BxGyInfo 2 6 1 3 (Some 3) 3 3
            [\<lparr>fi_product_id = ''D'', fi_quantity = 1, fi_price = 500, fi_discount = 500\<rparr>,
             \<lparr>fi_product_id = ''E'', fi_quantity = 1, fi_price = 400, fi_discount = 400\<rparr>,
             \<lparr>fi_product_id = ''F'', fi_quantity = 1, fi_price = 300, fi_discount = 300\<rparr>]
            1200))"
proof -
  let ?cart = "[line ''A'' 100 6, line ''D'' 500 1, line ''E'' 400 1, line ''F'' 300 1]"
  have count: "buy_count [''A'', ''B'', ''C''] ?cart = 6"
    by (simp add: buy_count_def lines_in_def line_def)
  then have enough: "2 \<le> buy_count [''A'', ''B'', ''C''] ?cart"
    by simp
  have run: "calculateBxGyDiscount (Array ?cart) (Some 2) (Some 1) (Array [''A'', ''B'', ''C''])
        (Array [''D'', ''E'', ''F'']) (Some 3)
     = Inr \<lparr>applicable = True, reason = None, discountAmount = 1200,
          breakdownInfo = Some (BxGyInfo 2 6 1 3 (Some 3) 3 3
            [\<lparr>fi_product_id = ''D'', fi_quantity = 1, fi_price = 500, fi_discount = 500\<rparr>,
             \<lparr>fi_product_id = ''E'', fi_quantity = 1, fi_price = 400, fi_discount = 400\<rparr>,
             \<lparr>fi_product_id = ''F'', fi_quantity = 1, fi_price = 300, fi_discount = 300\<rparr>]
            1200)\<rparr>"
    by code_simp
  from repetitions_and_free_units [of ?cart "[''A'', ''B'', ''C'']" "[''D'', ''E'', ''F'']"
      2 1 "Some 3", OF _ _ _ _ enough] run enough
  show ?thesis
    by simp
qed

section \<open>Bounds on the discount\<close>

lemma roundPrice_mono: "x \<le> y \<Longrightarrow> roundPrice (JSNumber x) \<le> roundPrice (JSNumber y)"
proof -
  assume "x \<le> y"
  then have "round (x * 100) \<le> round (y * 100)"
    by (intro round_mono) simp
  then show ?thesis
    by (simp add: Math_round_def divide_right_mono)
qed

lemma roundPrice_nonneg: "0 \<le> x \<Longrightarrow> 0 \<le> roundPrice (JSNumber x)"
  using roundPrice_mono [of 0 x] by (simp add: Math_round_def)

lemma roundPrice_half_cent: "roundPrice (JSNumber x) \<le> x + 1 / 200"
  using Math_round_nearest [of "x * 100"] by simp

lemma cart_total_nonneg: "nonneg_lines xs \<Longrightarrow> 0 \<le> cart_total xs"
  by (induction xs) (simp_all add: nonneg_lines_def cart_total_def)

lemma lines_in_total_le:
  "nonneg_lines xs \<Longrightarrow> (\<Sum>item\<leftarrow>lines_in ids xs. price item * quantity item) \<le> cart_total xs"
  by (induction xs) (simp_all add: nonneg_lines_def cart_total_def lines_in_def add_increasing)

lemma itemDiscount_nonneg:
  assumes "0 \<le> price item \<and> 0 \<le> quantity item" and "0 \<le> discount_value config"
  shows "0 \<le> itemDiscount config item"
  using assms by (simp add: itemDiscount_def Let_def)

lemma itemDiscount_le_line:
  assumes "0 \<le> price item \<and> 0 \<le> quantity item"
    and "discount_type config = ''PERCENTAGE''" and "discount_value config \<le> 100"
  shows "itemDiscount config item \<le> price item * quantity item"
proof -
  have "0 \<le> price item * quantity item"
    using assms(1) by simp
  then have "price item * quantity item * discount_value config \<le> price item * quantity item * 100"
    using assms(3) by (intro mult_left_mono) simp_all
  then show ?thesis
    using assms(2) by (simp add: itemDiscount_def Let_def)
qed

lemma eligible_sum_nonneg:
  assumes "nonneg_lines xs" and "0 \<le> discount_value config"
  shows "0 \<le> (\<Sum>item\<leftarrow>lines_in ids xs. itemDiscount config item)"
proof (rule sum_list_nonneg)
  fix d assume "d \<in> set (map (itemDiscount config) (lines_in ids xs))"
  then obtain item where "item \<in> set xs" and "d = itemDiscount config item"
    by (auto simp add: lines_in_def)
  with assms show "0 \<le> d"
    by (auto simp add: nonneg_lines_def list_all_iff intro: itemDiscount_nonneg)
qed

lemma eligible_sum_le_total:
  assumes "nonneg_lines xs"
    and "discount_type config = ''PERCENTAGE''" and "discount_value config \<le> 100"
  shows "(\<Sum>item\<leftarrow>lines_in ids xs. itemDiscount config item) \<le> cart_total xs"
proof -
  have "(\<Sum>item\<leftarrow>lines_in ids xs. itemDiscount config item)
      \<le> (\<Sum>item\<leftarrow>lines_in ids xs. price item * quantity item)"
  proof (rule sum_list_mono)
    fix item assume "item \<in> set (lines_in ids xs)"
    then have "item \<in> set xs" by (simp add: lines_in_def)
    with assms(1) have "0 \<le> price item \<and> 0 \<le> quantity item"
      by (simp add: nonneg_lines_def list_all_iff)
    from itemDiscount_le_line [OF this assms(2,3)]
    show "itemDiscount config item \<le> price item * quantity item" .
  qed
  also have "\<dots> \<le> cart_total xs"
    using assms(1) by (rule lines_in_total_le)
  finally show ?thesis .
qed


lemma try_catch_zero:
  assumes "\<And>r. body = Inr r \<Longrightarrow> \<not> applicable r \<Longrightarrow> discountAmount r = 0"
    and "try_catch body = Inr r" and "\<not> applicable r"
  shows "discountAmount r = 0"
  using assms by (cases body) (auto simp add: try_catch_def caught_def)

lemma cartWise_zero:
  assumes "calculateCartWiseDiscount cartItems conds config = Inr r" and "\<not> applicable r"
  shows "discountAmount r = 0"
proof (rule try_catch_zero [OF _ assms [unfolded calculateCartWiseDiscount_def]])
  fix r assume "calculateCartWiseDiscount_body cartItems conds config = Inr r" "\<not> applicable r"
  then show "discountAmount r = 0"
    by (auto simp add: calculateCartWiseDiscount_body_def cartWiseResult_applicable Let_def
        split: if_splits option.splits sum.splits)
qed

lemma productWise_zero:
  assumes "calculateProductWiseDiscount cartItems ids config = Inr r" and "\<not> applicable r"
  shows "discountAmount r = 0"
proof (rule try_catch_zero [OF _ assms [unfolded calculateProductWiseDiscount_def]])
  fix r assume "calculateProductWiseDiscount_body cartItems ids config = Inr r" "\<not> applicable r"
  then show "discountAmount r = 0"
    by (auto simp add: calculateProductWiseDiscount_body_def Let_def
        split: if_splits option.splits)
qed

lemma bxgyResult_zero:
  "\<not> applicable (bxgyResult cartItems buyQ getQ buyIds getIds limit) \<Longrightarrow>
     discountAmount (bxgyResult cartItems buyQ getQ buyIds getIds limit) = 0"
  by (cases "buy_count buyIds cartItems < buyQ \<or> lines_in getIds cartItems = []")
    (simp_all add: bxgyResult_not_applicable bxgyResult_applicable Let_def
      del: roundPrice.simps)

lemma bxgy_zero:
  assumes "calculateBxGyDiscount cartItems buyQ getQ buyIds getIds limit = Inr r"
    and "\<not> applicable r"
  shows "discountAmount r = 0"
proof (rule try_catch_zero [OF _ assms [unfolded calculateBxGyDiscount_def]])
  fix r assume "calculateBxGyDiscount_body cartItems buyQ getQ buyIds getIds limit = Inr r"
    "\<not> applicable r"
  then show "discountAmount r = 0"
    by (auto simp add: calculateBxGyDiscount_body_def bxgyResult_zero
        split: if_splits option.splits)
qed


lemma cartWiseResult_bounds:
  assumes "0 \<le> amount" and "nonneg_opt (maximum_discount conds)"
  shows "0 \<le> discountAmount (cartWiseResult t conds config amount)
       \<and> discountAmount (cartWiseResult t conds config amount) \<le> roundPrice (JSNumber amount)"
proof (cases "maximum_discount conds")
  case None
  with assms(1) show ?thesis
    by (simp add: cartWiseResult_def uncappedResult_def Let_def roundPrice_nonneg
        del: roundPrice.simps)
next
  case (Some m)
  with assms(2) have m: "0 \<le> m" by simp
  show ?thesis
  proof (cases "m \<noteq> 0 \<and> amount > m")
    case True
    then have "roundPrice (JSNumber m) \<le> roundPrice (JSNumber amount)"
      by (intro roundPrice_mono) simp
    with True Some m show ?thesis
      by (simp add: cartWiseResult_def cappedResult_def roundPrice_nonneg
          del: roundPrice.simps)
  next
    case False
    then have "cartWiseResult t conds config amount = uncappedResult t config amount"
      using Some by (auto simp add: cartWiseResult_def)
    with assms(1) show ?thesis
      by (simp add: uncappedResult_def Let_def roundPrice_nonneg del: roundPrice.simps)
  qed
qed

lemma cartWise_bounds:
  assumes "nonneg_lines cartItems" and "0 \<le> discount_value config"
    and "nonneg_opt (maximum_discount conds)"
  shows "\<exists>r. calculateCartWiseDiscount (Array cartItems) (Some conds) (Some config) = Inr r
     \<and> 0 \<le> discountAmount r
     \<and> (discount_type config = ''PERCENTAGE'' \<and> discount_value config \<le> 100 \<longrightarrow>
          discountAmount r \<le> roundPrice (JSNumber (cart_total cartItems)))"
proof -
  let ?t = "cart_total cartItems"
  have t: "0 \<le> ?t" using assms(1) by (rule cart_total_nonneg)
  then have rt: "0 \<le> roundPrice (JSNumber ?t)" by (rule roundPrice_nonneg)
  show ?thesis
  proof (cases "cartItems = [] \<or> ?t < minimum_of conds \<or> \<not> known_type config")
    case True
    show ?thesis
    proof (cases "cartItems = []")
      case True
      with rt show ?thesis
        by (simp add: calculateCartWiseDiscount_def calculateCartWiseDiscount_body_def
            try_catch_def del: roundPrice.simps)
    next
      case False
      with True rt show ?thesis
        by (auto simp add: calculateCartWiseDiscount_def cartWise_body_present
            rawCartDiscount_def known_type_def try_catch_def caught_def
            simp del: roundPrice.simps)
    qed
  next
    case False
    define amount where "amount =
      (if discount_type config = ''PERCENTAGE'' then ?t * discount_value config / 100
       else discount_value config)"
    from False have ret: "calculateCartWiseDiscount (Array cartItems) (Some conds) (Some config)
        = Inr (cartWiseResult ?t conds config amount)"
      by (auto simp add: calculateCartWiseDiscount_def cartWise_body_present rawCartDiscount_def
          known_type_def try_catch_def amount_def)
    have nn: "0 \<le> amount"
      using t assms(2) by (simp add: amount_def)
    have le: "amount \<le> ?t"
      if "discount_type config = ''PERCENTAGE''" and "discount_value config \<le> 100"
    proof -
      have "?t * discount_value config \<le> ?t * 100"
        using t that(2) by (intro mult_left_mono) simp_all
      with that(1) show ?thesis by (simp add: amount_def)
    qed
    let ?d = "discountAmount (cartWiseResult ?t conds config amount)"
    from cartWiseResult_bounds [OF nn assms(3), of ?t config]
    have d0: "0 \<le> ?d" and da: "?d \<le> roundPrice (JSNumber amount)"
      by blast+
    have "?d \<le> roundPrice (JSNumber ?t)"
      if "discount_type config = ''PERCENTAGE''" and "discount_value config \<le> 100"
      using da roundPrice_mono [OF le [OF that]] by (rule order_trans)
    with ret d0 show ?thesis
      by blast
  qed
qed

lemma productWise_bounds:
  assumes "nonneg_lines cartItems" and "0 \<le> discount_value config"
  shows "\<exists>r. calculateProductWiseDiscount (Array cartItems) (Array ids) (Some config) = Inr r
     \<and> 0 \<le> discountAmount r
     \<and> (discount_type config = ''PERCENTAGE'' \<and> discount_value config \<le> 100 \<longrightarrow>
          discountAmount r \<le> roundPrice (JSNumber (cart_total cartItems)))"
proof -
  let ?t = "cart_total cartItems"
  let ?s = "\<Sum>item\<leftarrow>lines_in ids cartItems. itemDiscount config item"
  have rt: "0 \<le> roundPrice (JSNumber ?t)"
    using assms(1) by (intro roundPrice_nonneg cart_total_nonneg)
  show ?thesis
  proof (cases "cartItems = [] \<or> ids = []")
    case True
    then show ?thesis
      using rt
      by (cases "cartItems = []")
        (auto simp add: productWise_empty_cart productWise_no_ids simp del: roundPrice.simps)
  next
    case False
    have s: "0 \<le> roundPrice (JSNumber ?s)"
      using assms by (intro roundPrice_nonneg eligible_sum_nonneg)
    have le: "roundPrice (JSNumber ?s) \<le> roundPrice (JSNumber ?t)"
      if "discount_type config = ''PERCENTAGE''" and "discount_value config \<le> 100"
      using assms(1) that by (intro roundPrice_mono eligible_sum_le_total)
    from False s le rt show ?thesis
      by (simp add: productWise_body_present Let_def del: roundPrice.simps)
  qed
qed

lemma bxgy_rounded_sum:
  assumes "calculateBxGyDiscount cartItems buyQ getQ buyIds getIds limit = Inr r"
    and "applicable r"
  shows "\<exists>bq found gq ta tap given details td.
      breakdownInfo r = Some (BxGyInfo bq found gq ta limit tap given details td)
      \<and> discountAmount r = roundPrice (JSNumber (\<Sum>d\<leftarrow>details. fi_quantity d * fi_price d))"
proof -
  from assms obtain bq gq
    where r: "r = bxgyResult (elements cartItems) bq gq (elements buyIds) (elements getIds) limit"
      and enough: "\<not> buy_count (elements buyIds) (elements cartItems) < bq"
      and some: "lines_in (elements getIds) (elements cartItems) \<noteq> []"
    by (rule bxgy_applicable_cases)
  show ?thesis
    unfolding r bxgyResult_applicable [OF enough some]
    by (simp add: Let_def del: roundPrice.simps)
qed

text \<open>
  Claim C1, as amended. For a cart whose prices and quantities are not negative and a
  configuration whose discount value and maximum discount are not negative, the results of
  \<open>calculateCartWiseDiscount\<close> and \<open>calculateProductWiseDiscount\<close> have
  \<open>discountAmount \<ge> 0\<close>, and \<open>applicable = false\<close> implies \<open>discountAmount = 0\<close>. Under a
  PERCENTAGE discount of at most 100 the \<open>discountAmount\<close> is at most the cart total
  rounded to two decimals, which is at most half a cent above the cart total. For
  \<open>calculateBxGyDiscount\<close>, \<open>applicable = false\<close> implies \<open>discountAmount = 0\<close>, and the
  discount of an applicable result is the sum of \<open>free quantity * price\<close> over the lines
  marked free, rounded to two decimals, which is at most half a cent above that sum.
\<close>

theorem discount_amount_bounds:
  assumes "nonneg_lines cartItems" and "0 \<le> discount_value config"
    and "nonneg_opt (maximum_discount conds)"
  shows "\<exists>cw pw bx.
      calculateCartWiseDiscount (Array cartItems) (Some conds) (Some config) = Inr cw
    \<and> calculateProductWiseDiscount (Array cartItems) (Array ids) (Some config) = Inr pw
    \<and> calculateBxGyDiscount (Array cartItems) buyQ getQ buyIds getIds limit = Inr bx
    \<and> 0 \<le> discountAmount cw \<and> 0 \<le> discountAmount pw
    \<and> (\<not> applicable cw \<longrightarrow> discountAmount cw = 0)
    \<and> (\<not> applicable pw \<longrightarrow> discountAmount pw = 0)
    \<and> (\<not> applicable bx \<longrightarrow> discountAmount bx = 0)
    \<and> (discount_type config = ''PERCENTAGE'' \<and> discount_value config \<le> 100 \<longrightarrow>
         discountAmount cw \<le> roundPrice (JSNumber (cart_total cartItems))
       \<and> discountAmount pw \<le> roundPrice (JSNumber (cart_total cartItems))
       \<and> roundPrice (JSNumber (cart_total cartItems)) \<le> cart_total cartItems + 1 / 200)
    \<and> (applicable bx \<longrightarrow> (\<exists>bq found gq ta tap given details td.
          breakdownInfo bx = Some (BxGyInfo bq found gq ta limit tap given details td)
        \<and> discountAmount bx
            = roundPrice (JSNumber (\<Sum>d\<leftarrow>details. fi_quantity d * fi_price d))
        \<and> discountAmount bx \<le> (\<Sum>d\<leftarrow>details. fi_quantity d * fi_price d) + 1 / 200))"
proof -
  from cartWise_bounds [OF assms] obtain cw
    where cw: "calculateCartWiseDiscount (Array cartItems) (Some conds) (Some config) = Inr cw"
      and cw0: "0 \<le> discountAmount cw"
      and cwt: "discount_type config = ''PERCENTAGE'' \<and> discount_value config \<le> 100 \<longrightarrow>
          discountAmount cw \<le> roundPrice (JSNumber (cart_total cartItems))"
    by blast
  from productWise_bounds [OF assms(1,2)] obtain pw
    where pw: "calculateProductWiseDiscount (Array cartItems) (Array ids) (Some config) = Inr pw"
      and pw0: "0 \<le> discountAmount pw"
      and pwt: "discount_type config = ''PERCENTAGE'' \<and> discount_value config \<le> 100 \<longrightarrow>
          discountAmount pw \<le> roundPrice (JSNumber (cart_total cartItems))"
    by blast
  obtain bx
    where bx: "calculateBxGyDiscount (Array cartItems) buyQ getQ buyIds getIds limit = Inr bx"
    unfolding calculateBxGyDiscount_def using try_catch_returns by blast
  have cwz: "\<not> applicable cw \<longrightarrow> discountAmount cw = 0"
    using cartWise_zero [OF cw] by blast
  have pwz: "\<not> applicable pw \<longrightarrow> discountAmount pw = 0"
    using productWise_zero [OF pw] by blast
  have bxz: "\<not> applicable bx \<longrightarrow> discountAmount bx = 0"
    using bxgy_zero [OF bx] by blast
  have half: "roundPrice (JSNumber (cart_total cartItems)) \<le> cart_total cartItems + 1 / 200"
    by (rule roundPrice_half_cent)
  have bxs: "applicable bx \<longrightarrow> (\<exists>bq found gq ta tap given details td.
          breakdownInfo bx = Some (BxGyInfo bq found gq ta limit tap given details td)
        \<and> discountAmount bx
            = roundPrice (JSNumber (\<Sum>d\<leftarrow>details. fi_quantity d * fi_price d))
        \<and> discountAmount bx \<le> (\<Sum>d\<leftarrow>details. fi_quantity d * fi_price d) + 1 / 200)"
  proof
    assume "applicable bx"
    from bxgy_rounded_sum [OF bx this] obtain bq found gq ta tap given details td
      where i: "breakdownInfo bx = Some (BxGyInfo bq found gq ta limit tap given details td)"
        and d: "discountAmount bx
            = roundPrice (JSNumber (\<Sum>d\<leftarrow>details. fi_quantity d * fi_price d))"
      by blast
    from d have "discountAmount bx \<le> (\<Sum>d\<leftarrow>details. fi_quantity d * fi_price d) + 1 / 200"
      using roundPrice_half_cent [of "\<Sum>d\<leftarrow>details. fi_quantity d * fi_price d"]
      by (simp del: roundPrice.simps)
    with i d show "\<exists>bq found gq ta tap given details td.
          breakdownInfo bx = Some (BxGyInfo bq found gq ta limit tap given details td)
        \<and> discountAmount bx
            = roundPrice (JSNumber (\<Sum>d\<leftarrow>details. fi_quantity d * fi_price d))
        \<and> discountAmount bx \<le> (\<Sum>d\<leftarrow>details. fi_quantity d * fi_price d) + 1 / 200"
      by blast
  qed
  from cw pw bx cw0 pw0 cwz pwz bxz cwt pwt half bxs show ?thesis
    by blast
qed

theorem discount_amount_bounds_witness:
  "nonneg_lines [line ''A'' 100 2, line ''D'' 500 1]
   \<and> (0::rat) \<le> discount_value \<lparr>discount_type = ''PERCENTAGE'', discount_value = 10\<rparr>
   \<and> nonneg_opt (maximum_discount \<lparr>minimum_cart_value = Some 100, maximum_discount = Some 50\<rparr>)
   \<and> (\<exists>cw pw bx.
      calculateCartWiseDiscount (Array [line ''A'' 100 2, line ''D'' 500 1])
        (Some \<lparr>minimum_cart_value = Some 100, maximum_discount = Some 50\<rparr>)
        (Some \<lparr>discount_type = ''PERCENTAGE'', discount_value = 10\<rparr>) = Inr cw
    \<and> calculateProductWiseDiscount (Array [line ''A'' 100 2, line ''D'' 500 1]) (Array [''A''])
        (Some \<lparr>discount_type = ''PERCENTAGE'', discount_value = 10\<rparr>) = Inr pw
    \<and> calculateBxGyDiscount (Array [line ''A'' 100 2, line ''D'' 500 1]) (Some 2) (Some 1)
        (Array [''A'']) (Array [''D'']) None = Inr bx
    \<and> discountAmount cw = 50 \<and> discountAmount pw = 20 \<and> discountAmount bx = 500
    \<and> cart_total [line ''A'' 100 2, line ''D'' 500 1] = 700)"
proof -
  let ?cart = "[line ''A'' 100 2, line ''D'' 500 1]"
  let ?conds = "\<lparr>minimum_cart_value = Some 100, maximum_discount = Some 50\<rparr>"
  let ?config = "\<lparr>discount_type = ''PERCENTAGE'', discount_value = 10\<rparr>"
  have wf: "nonneg_lines ?cart"
    by (simp add: nonneg_lines_def line_def)
  have v: "0 \<le> discount_value ?config" by simp
  have m: "nonneg_opt (maximum_discount ?conds)" by simp
  have cw: "calculateCartWiseDiscount (Array ?cart) (Some ?conds) (Some ?config)
      = Inr \<lparr>applicable = True, reason = Some (DiscountCapped 50), discountAmount = 50,
             breakdownInfo = Some (CappedInfo 700 ''PERCENTAGE'' 10 70 50 50)\<rparr>"
    by code_simp
  have pw: "calculateProductWiseDiscount (Array ?cart) (Array [''A'']) (Some ?config)
      = Inr \<lparr>applicable = True, reason = None, discountAmount = 20,
             breakdownInfo = Some (ProductWiseInfo ''PERCENTAGE'' 10
               [\<lparr>di_product_id = ''A'', di_quantity = 2, di_price = 100,
                 di_itemTotal = 200, di_discount = 20\<rparr>] 20)\<rparr>"
    by code_simp
  have bx: "calculateBxGyDiscount (Array ?cart) (Some 2) (Some 1) (Array [''A''])
        (Array [''D'']) None
      = Inr \<lparr>applicable = True, reason = None, discountAmount = 500,
             breakdownInfo = Some (BxGyInfo 2 2 1 1 None 1 1
               [\<lparr>fi_product_id = ''D'', fi_quantity = 1, fi_price = 500,
                 fi_discount = 500\<rparr>] 500)\<rparr>"
    by code_simp
  have t: "cart_total ?cart = 700"
    by (simp add: cart_total_def line_def)
  from discount_amount_bounds [OF wf v m, of "[''A'']" "Some 2" "Some 1" "Array [''A'']"
      "Array [''D'']" None] wf cw pw bx t
  show ?thesis
    by simp
qed

text \<open>
  The claim as the specification states it fails in three ways. The cart-wise discount of a
  fixed 50 on the cart \<open>[{A, 10, 1}]\<close>, whose total is 10, is 50. The rounding goes up: on
  the cart \<open>[{A, 0.005, 1}]\<close> the cart-wise discount of 100 percent is 0.01, above the
  total 0.005; and with the line \<open>{D, 0.005, 1}\<close> as the one free unit of a
  buy-2-get-1 coupon the discount is 0.01, above the price 0.005 of the unit marked free.
\<close>

theorem discount_bounds_counterexample:
  "calculateCartWiseDiscount (Array [line ''A'' 10 1])
      (Some \<lparr>minimum_cart_value = None, maximum_discount = None\<rparr>)
      (Some \<lparr>discount_type = ''FIXED_AMOUNT'', discount_value = 50\<rparr>)
     = Inr \<lparr>applicable = True, reason = None, discountAmount = 50,
            breakdownInfo = Some (CartWiseInfo 10 ''FIXED_AMOUNT'' 50 50 (- 40))\<rparr>
   \<and> cart_total [line ''A'' 10 1] = 10
   \<and> calculateCartWiseDiscount (Array [line ''A'' (5 / 1000) 1])
      (Some \<lparr>minimum_cart_value = None, maximum_discount = None\<rparr>)
      (Some \<lparr>discount_type = ''PERCENTAGE'', discount_value = 100\<rparr>)
     = Inr \<lparr>applicable = True, reason = None, discountAmount = 1 / 100,
            breakdownInfo = Some (CartWiseInfo (1 / 100) ''PERCENTAGE'' 100 (1 / 100) 0)\<rparr>
   \<and> cart_total [line ''A'' (5 / 1000) 1] = 5 / 1000
   \<and> calculateBxGyDiscount (Array [line ''A'' 10 2, line ''D'' (5 / 1000) 1])
      (Some 2) (Some 1) (Array [''A'']) (Array [''D'']) None
     = Inr \<lparr>applicable = True, reason = None, discountAmount = 1 / 100,
            breakdownInfo = Some (BxGyInfo 2 2 1 1 None 1 1
              [\<lparr>fi_product_id = ''D'', fi_quantity = 1, fi_price = 5 / 1000,
                fi_discount = 1 / 100\<rparr>] (1 / 100))\<rparr>
   \<and> \<not> (50::rat) \<le> 10 \<and> \<not> (1 / 100 :: rat) \<le> 5 / 1000"
proof -
  have "cart_total [line ''A'' 10 1] = 10" "cart_total [line ''A'' (5 / 1000) 1] = 5 / 1000"
    by (simp_all add: cart_total_def line_def)
  moreover have "calculateCartWiseDiscount (Array [line ''A'' 10 1])
      (Some \<lparr>minimum_cart_value = None, maximum_discount = None\<rparr>)
      (Some \<lparr>discount_type = ''FIXED_AMOUNT'', discount_value = 50\<rparr>)
     = Inr \<lparr>applicable = True, reason = None, discountAmount = 50,
            breakdownInfo = Some (CartWiseInfo 10 ''FIXED_AMOUNT'' 50 50 (- 40))\<rparr>"
    by code_simp
  moreover have "calculateCartWiseDiscount (Array [line ''A'' (5 / 1000) 1])
      (Some \<lparr>minimum_cart_value = None, maximum_discount = None\<rparr>)
      (Some \<lparr>discount_type = ''PERCENTAGE'', discount_value = 100\<rparr>)
     = Inr \<lparr>applicable = True, reason = None, discountAmount = 1 / 100,
            breakdownInfo = Some (CartWiseInfo (1 / 100) ''PERCENTAGE'' 100 (1 / 100) 0)\<rparr>"
    by code_simp
  moreover have "calculateBxGyDiscount (Array [line ''A'' 10 2, line ''D'' (5 / 1000) 1])
      (Some 2) (Some 1) (Array [''A'']) (Array [''D'']) None
     = Inr \<lparr>applicable = True, reason = None, discountAmount = 1 / 100,
            breakdownInfo = Some (BxGyInfo 2 2 1 1 None 1 1
              [\<lparr>fi_product_id = ''D'', fi_quantity = 1, fi_price = 5 / 1000,
                fi_discount = 1 / 100\<rparr>] (1 / 100))\<rparr>"
    by code_simp
  moreover have "\<not> (50::rat) \<le> 10" "\<not> (1 / 100 :: rat) \<le> 5 / 1000"
    by simp_all
  ultimately show ?thesis by blast
qed

end
